theory Spec2Isabelle
  imports
    Main
    "HOL-Library.Sublist"
    "HOL-Library.Char_ord"
    "HOL-Library.List_Lexorder"
begin

section \<open>JavaScript values used by the booking server\<close>

text \<open>
  The server (\<^verbatim>\<open>src/server.js\<close>) is an Express application over a PostgreSQL table.
  Strings are modelled as \<^typ>\<open>string\<close>, numbers that the code only uses as integers
  as \<^typ>\<open>int\<close>, and a value that may be \<^verbatim>\<open>undefined\<close> (a key absent from a JSON
  body or from the query string) as an \<^typ>\<open>string option\<close>. The fields of a request
  body are JSON strings or absent, as the site's forms send them; a body is the map from
  its keys to their strings.
\<close>

subsection \<open>Number.prototype.toString and String.prototype.padStart\<close>

definition digit_char :: "nat \<Rightarrow> char" where
  "digit_char d = char_of (48 + d)"

function toString_nat :: "nat \<Rightarrow> string" where
  "toString_nat n = (if n < 10 then [digit_char n] else toString_nat (n div 10) @ [digit_char (n mod 10)])"
  by pat_completeness auto
termination
  by (relation "measure (\<lambda>n. n)") auto

definition toString :: "int \<Rightarrow> string" where
  "toString n = (if n < 0 then CHR ''-'' # toString_nat (nat (- n)) else toString_nat (nat n))"

definition padStart :: "nat \<Rightarrow> char \<Rightarrow> string \<Rightarrow> string" where
  "padStart targetLength c s = replicate (targetLength - length s) c @ s"

subsection \<open>Truthiness of an optional string\<close>

text \<open>
  \<^verbatim>\<open>!v\<close> for a value that is either \<^verbatim>\<open>undefined\<close> or a string: true for
  \<^verbatim>\<open>undefined\<close> and for the empty string.
\<close>

definition falsy :: "string option \<Rightarrow> bool" where
  "falsy v = (case v of None \<Rightarrow> True | Some s \<Rightarrow> s = [])"

text \<open>\<^verbatim>\<open>if (v)\<close> for such a value.\<close>

definition truthy :: "string option \<Rightarrow> bool" where
  "truthy v = (case v of None \<Rightarrow> False | Some s \<Rightarrow> s \<noteq> [])"

text \<open>\<^verbatim>\<open>v || ''\<close> for such a value.\<close>

definition or_empty :: "string option \<Rightarrow> string" where
  "or_empty v = (case v of None \<Rightarrow> [] | Some s \<Rightarrow> s)"

section \<open>The Date object\<close>

text \<open>
  A Date holds a time value: milliseconds since the epoch in UTC, or NaN
  (\<^term>\<open>None\<close>). The functions below are the abstract operations of ECMA-262
  (Day, WeekDay, DayFromYear, MakeDay, LocalTime, UTC) that the server's calls reach:
  \<^verbatim>\<open>new Date(string)\<close> on a date-only string, \<^verbatim>\<open>new Date()\<close>,
  \<^verbatim>\<open>getDay()\<close>, \<^verbatim>\<open>setHours(0, 0, 0, 0)\<close> and the comparison \<^verbatim>\<open><\<close>.

  The process environment supplies the clock, the local time zone and the mail
  transport. The zone's offset from UTC (\<^verbatim>\<open>LocalTZA\<close>, milliseconds, positive
  east of Greenwich) is taken as constant over the instants of one request.
  \<open>mail_up\<close> says whether the notification sender is configured and the transport
  accepts the message handed to it.
\<close>

record env =
  now :: int
  LocalTZA :: int
  mail_up :: bool

definition msPerDay :: int where
  "msPerDay = 86400000"

definition Day :: "int \<Rightarrow> int" where
  "Day t = t div msPerDay"

definition WeekDay :: "int \<Rightarrow> int" where
  "WeekDay t = (Day t + 4) mod 7"

definition InLeapYear :: "int \<Rightarrow> bool" where
  "InLeapYear y = (y mod 4 = 0 \<and> (y mod 100 \<noteq> 0 \<or> y mod 400 = 0))"

definition DayFromYear :: "int \<Rightarrow> int" where
  "DayFromYear y = 365 * (y - 1970) + (y - 1969) div 4 - (y - 1901) div 100 + (y - 1601) div 400"

text \<open>Days before the first of month \<open>m\<close> (0 = January) within its year.\<close>

definition DayWithinYear :: "int \<Rightarrow> bool \<Rightarrow> int" where
  "DayWithinYear m leap =
     (if m = 0 then 0 else if m = 1 then 31
      else (if leap then 1 else 0) +
        (if m = 2 then 59 else if m = 3 then 90 else if m = 4 then 120
         else if m = 5 then 151 else if m = 6 then 181 else if m = 7 then 212
         else if m = 8 then 243 else if m = 9 then 273 else if m = 10 then 304
         else 334))"

text \<open>\<^verbatim>\<open>MakeDay(year, month, date)\<close> for a month in 0..11.\<close>

definition MakeDay :: "int \<Rightarrow> int \<Rightarrow> int \<Rightarrow> int" where
  "MakeDay y m d = DayFromYear y + DayWithinYear m (InLeapYear y) + d - 1"

definition is_digit :: "char \<Rightarrow> bool" where
  "is_digit c = (CHR ''0'' \<le> c \<and> c \<le> CHR ''9'')"

definition digit_val :: "char \<Rightarrow> int" where
  "digit_val c = int (of_char c) - 48"

text \<open>The test \<^verbatim>\<open>/^\d{4}-\d{2}-\d{2}$/.test(date)\<close>.\<close>

fun date_pattern :: "string \<Rightarrow> bool" where
  "date_pattern [y1, y2, y3, y4, s1, m1, m2, s2, d1, d2] =
     (is_digit y1 \<and> is_digit y2 \<and> is_digit y3 \<and> is_digit y4 \<and> s1 = CHR ''-'' \<and>
      is_digit m1 \<and> is_digit m2 \<and> s2 = CHR ''-'' \<and> is_digit d1 \<and> is_digit d2)"
| "date_pattern _ = False"

text \<open>
  \<^verbatim>\<open>new Date(date)\<close> for a string of the form YYYY-MM-DD, the only form that reaches
  it (the route tests the pattern first). As Node's parser does, a month outside 1..12 or a
  day outside 1..31 gives an invalid Date (NaN), a day past the end of its month runs on
  into the next month, and the date-only form denotes midnight UTC. Strings of any other
  form are outside this model and are given NaN.
\<close>

fun Date_parse :: "string \<Rightarrow> int option" where
  "Date_parse [y1, y2, y3, y4, s1, m1, m2, s2, d1, d2] =
     (if date_pattern [y1, y2, y3, y4, s1, m1, m2, s2, d1, d2] then
        (let year = 1000 * digit_val y1 + 100 * digit_val y2 + 10 * digit_val y3 + digit_val y4;
             month = 10 * digit_val m1 + digit_val m2;
             day = 10 * digit_val d1 + digit_val d2
         in if 1 \<le> month \<and> month \<le> 12 \<and> 1 \<le> day \<and> day \<le> 31
            then Some (MakeDay year (month - 1) day * msPerDay)
            else None)
      else None)"
| "Date_parse _ = None"

definition LocalTime :: "env \<Rightarrow> int \<Rightarrow> int" where
  "LocalTime e t = t + LocalTZA e"

definition UTC :: "env \<Rightarrow> int \<Rightarrow> int" where
  "UTC e t = t - LocalTZA e"

text \<open>\<^verbatim>\<open>getDay()\<close>: the weekday of the local time, NaN for an invalid Date.\<close>

definition getDay :: "env \<Rightarrow> int option \<Rightarrow> int option" where
  "getDay e tv = (case tv of None \<Rightarrow> None | Some t \<Rightarrow> Some (WeekDay (LocalTime e t)))"

text \<open>\<^verbatim>\<open>setHours(0, 0, 0, 0)\<close>: midnight, local time, of the local day of \<open>t\<close>.\<close>

definition setHours0 :: "env \<Rightarrow> int \<Rightarrow> int" where
  "setHours0 e t = UTC e (Day (LocalTime e t) * msPerDay)"

text \<open>\<^verbatim>\<open>a < b\<close> on two Dates: false when either is NaN.\<close>

definition date_less :: "int option \<Rightarrow> int option \<Rightarrow> bool" where
  "date_less a b = (case a of None \<Rightarrow> False | Some x \<Rightarrow> (case b of None \<Rightarrow> False | Some y \<Rightarrow> x < y))"

section \<open>Clinic configuration and the slot generator\<close>

record clinic_config =
  openTime :: int
  closeTime :: int
  slotDuration :: int
  workDays :: "int list"

definition CLINIC_CONFIG :: clinic_config where
  "CLINIC_CONFIG = \<lparr>openTime = 9, closeTime = 17, slotDuration = 30, workDays = [1, 2, 3, 4, 5, 6]\<rparr>"

text \<open>\<^verbatim>\<open>workDays.includes(dayOfWeek)\<close>, where \<open>dayOfWeek\<close> may be NaN.\<close>

definition includes_int :: "int list \<Rightarrow> int option \<Rightarrow> bool" where
  "includes_int xs v = (case v of None \<Rightarrow> False | Some k \<Rightarrow> k \<in> set xs)"

text \<open>The label pushed for one slot.\<close>

definition slot_label :: "int \<Rightarrow> int \<Rightarrow> string" where
  "slot_label hour minute =
     padStart 2 (CHR ''0'') (toString hour) @ '':'' @ padStart 2 (CHR ''0'') (toString minute)"

text \<open>
  The inner loop \<^verbatim>\<open>for (let min = 0; min < 60; min += CLINIC_CONFIG.slotDuration)\<close>,
  entered at \<open>min\<close> with the slots pushed so far.
\<close>

function min_loop :: "int \<Rightarrow> int \<Rightarrow> string list \<Rightarrow> string list" where
  "min_loop hour minute slots =
     (if minute < 60
      then min_loop hour (minute + slotDuration CLINIC_CONFIG) (slots @ [slot_label hour minute])
      else slots)"
  by pat_completeness auto
termination
  by (relation "measure (\<lambda>(hour, minute, slots). nat (60 - minute))")
     (auto simp: CLINIC_CONFIG_def)

text \<open>
  The outer loop
  \<^verbatim>\<open>for (let hour = CLINIC_CONFIG.openTime; hour < CLINIC_CONFIG.closeTime; hour++)\<close>.
\<close>

function hour_loop :: "int \<Rightarrow> string list \<Rightarrow> string list" where
  "hour_loop hour slots =
     (if hour < closeTime CLINIC_CONFIG
      then hour_loop (hour + 1) (min_loop hour 0 slots)
      else slots)"
  by pat_completeness auto
termination
  by (relation "measure (\<lambda>(hour, slots). nat (closeTime CLINIC_CONFIG - hour))") auto

definition generateTimeSlots :: "env \<Rightarrow> string \<Rightarrow> string list" where
  "generateTimeSlots e date =
     (let dayOfWeek = getDay e (Date_parse date)
      in if includes_int (workDays CLINIC_CONFIG) dayOfWeek
         then hour_loop (openTime CLINIC_CONFIG) []
         else [])"

section \<open>The appointment store\<close>

text \<open>
  A row of the table \<^verbatim>\<open>appointments\<close>. The columns are TEXT but for the serial key and
  the creation time; TEXT values are compared as they are stored.
\<close>

record appointment =
  appt_id :: int
  first_name :: string
  last_name :: string
  email :: string
  phone :: string
  service :: string
  date :: string
  time :: string
  notes_col :: string
  status :: string
  created_at :: int

text \<open>
  What a request can change: the table (in insertion order), the sequence behind the
  serial key (its last value) and the messages handed to the mail transport (their
  recipients).
\<close>

record state =
  appointments :: "appointment list"
  appointments_id_seq :: int
  outbox :: "string list"

definition init_state :: state where
  "init_state = \<lparr>appointments = [], appointments_id_seq = 0, outbox = []\<rparr>"

text \<open>The greatest value of the 32-bit integer column \<^verbatim>\<open>id\<close>.\<close>

definition int4_max :: int where
  "int4_max = 2147483647"

text \<open>
  A string stands for the UTF-8 bytes of the JavaScript string. PostgreSQL does not take
  the character U+0000 in a TEXT value: a statement with a text parameter that holds it
  fails when the parameters are bound, before anything is executed.
\<close>

definition text_params_ok :: "string list \<Rightarrow> bool" where
  "text_params_ok ps = list_all (\<lambda>p. CHR 0x00 \<notin> set p) ps"

text \<open>The text parameters of the INSERT, in the order of its VALUES list.\<close>

definition values_ok :: "appointment \<Rightarrow> bool" where
  "values_ok a =
     text_params_ok
       [first_name a, last_name a, email a, phone a, service a, date a, time a, notes_col a]"

text \<open>The rows that \<^verbatim>\<open>status != 'cancelled'\<close> keeps.\<close>

definition not_cancelled :: "appointment \<Rightarrow> bool" where
  "not_cancelled a = (status a \<noteq> ''cancelled'')"

text \<open>
  \<^verbatim>\<open>SELECT id FROM appointments WHERE date = $1 AND time = $2 AND status != 'cancelled'\<close>
\<close>

definition select_existing :: "state \<Rightarrow> string \<Rightarrow> string \<Rightarrow> int list" where
  "select_existing s d t =
     map appt_id (filter (\<lambda>a. date a = d \<and> time a = t \<and> not_cancelled a) (appointments s))"

text \<open>The same statement as the route awaits it: \<^term>\<open>None\<close> when it fails.\<close>

definition query_existing :: "state \<Rightarrow> string \<Rightarrow> string \<Rightarrow> int list option" where
  "query_existing s d t =
     (if text_params_ok [d, t] then Some (select_existing s d t) else None)"

text \<open>
  \<^verbatim>\<open>SELECT time FROM appointments WHERE date = $1 AND status != 'cancelled'\<close>. Its
  parameter has passed the date pattern, so it holds digits and dashes only and the
  statement does not fail on it.
\<close>

definition select_times :: "state \<Rightarrow> string \<Rightarrow> string list" where
  "select_times s d = map time (filter (\<lambda>a. date a = d \<and> not_cancelled a) (appointments s))"

text \<open>
  \<^verbatim>\<open>INSERT INTO appointments (...) VALUES (...) RETURNING id\<close>: the key is the
  sequence's next value, the status column takes its default \<^verbatim>\<open>'confirmed'\<close>. The
  statement fails when a text parameter holds U+0000, when the sequence of the 32-bit
  serial column is exhausted, and when the primary key finds the new key in the table
  already (the sequence stays advanced).
\<close>

definition insert_row :: "env \<Rightarrow> state \<Rightarrow> appointment \<Rightarrow> int option \<times> state" where
  "insert_row e s a =
     (let new_id = appointments_id_seq s + 1;
          s1 = s\<lparr>appointments_id_seq := new_id\<rparr>
      in if \<not> values_ok a then (None, s)
         else if int4_max < new_id then (None, s)
         else if new_id \<in> set (map appt_id (appointments s)) then (None, s1)
         else (Some new_id,
               s1\<lparr>appointments := appointments s @
                  [a\<lparr>appt_id := new_id, status := ''confirmed'', created_at := now e\<rparr>]\<rparr>))"

text \<open>\<^verbatim>\<open>UPDATE appointments SET status = $1 WHERE id = $2\<close>\<close>

definition update_status :: "state \<Rightarrow> string \<Rightarrow> int \<Rightarrow> state" where
  "update_status s st i =
     s\<lparr>appointments := map (\<lambda>a. if appt_id a = i then a\<lparr>status := st\<rparr> else a) (appointments s)\<rparr>"

text \<open>\<^verbatim>\<open>DELETE FROM appointments WHERE id = $1\<close>\<close>

definition delete_row :: "state \<Rightarrow> int \<Rightarrow> state" where
  "delete_row s i = s\<lparr>appointments := filter (\<lambda>a. appt_id a \<noteq> i) (appointments s)\<rparr>"

text \<open>
  The key that reaches the two statements above is \<^verbatim>\<open>parseInt(id)\<close>: NaN
  (\<^term>\<open>None\<close>) or an integer. The column is a 32-bit integer, and the store rejects a
  parameter that is not one.
\<close>

definition int4 :: "int option \<Rightarrow> bool" where
  "int4 v = (case v of None \<Rightarrow> False | Some n \<Rightarrow> - int4_max - 1 \<le> n \<and> n \<le> int4_max)"

section \<open>The routes\<close>

text \<open>
  A response is the status code with the JSON body. The \<^verbatim>\<open>catch\<close> block of a route
  answers 500 when a statement fails; the statements of this model fail on a text
  parameter that holds U+0000, on an exhausted or duplicate key and on a key parameter
  that is not a 32-bit integer. Loss of the database connection is not modelled, and the
  one-time initialisation
  (\<^verbatim>\<open>ensureInit\<close>) is taken as done: \<open>init_state\<close> is the store it leaves.

  The routes modelled are the slot query, the booking, the status update, the deletion
  and the patient roster. Login, logout, the appointment listing and the patient history
  read the store or the session and change neither table.
\<close>

text \<open>
  A row of the roster: the columns \<^verbatim>\<open>email, first_name, last_name, phone\<close> (the
  field \<open>patient\<close>, in this order), \<^verbatim>\<open>total_appointments\<close> and
  \<^verbatim>\<open>last_visit\<close>.
\<close>

record patient_row =
  patient :: "string \<times> string \<times> string \<times> string"
  total_appointments :: nat
  last_visit :: string

text \<open>
  \<^item> \<open>Json_error c m\<close> is \<^verbatim>\<open>res.status(c).json({ error: m })\<close>;
  \<^item> \<open>Booked i sent\<close> is status 201 with
    \<^verbatim>\<open>{ success: true, message: 'Appointment booked!', appointmentId: i, emailSent: sent }\<close>;
  \<^item> \<open>Success m\<close> is \<^verbatim>\<open>res.json({ success: true, message: m })\<close>;
  \<^item> \<open>Slots d all booked available\<close> is
    \<^verbatim>\<open>res.json({ date, allSlots, bookedSlots: bookedTimes, availableSlots })\<close>;
  \<^item> \<open>Patients rows\<close> is \<^verbatim>\<open>res.json(result.rows)\<close> of the roster query.
\<close>

datatype response =
    Json_error nat string
  | Booked int bool
  | Success string
  | Slots string "string list" "string list" "string list"
  | Patients "patient_row list"

subsection \<open>GET /api/slots/:date\<close>

definition get_slots :: "env \<Rightarrow> state \<Rightarrow> string \<Rightarrow> response" where
  "get_slots e s date_param =
     (if \<not> date_pattern date_param then Json_error 400 ''Invalid date format''
      else
        let selectedDate = Date_parse date_param;
            today = Some (setHours0 e (now e))
        in if date_less selectedDate today then Json_error 400 ''Cannot book in the past''
           else
             let allSlots = generateTimeSlots e date_param;
                 bookedTimes = select_times s date_param;
                 availableSlots = filter (\<lambda>x. x \<notin> set bookedTimes) allSlots
             in Slots date_param allSlots bookedTimes availableSlots)"

subsection \<open>POST /api/appointments\<close>

text \<open>
  \<^verbatim>\<open>sendConfirmationEmail\<close>: the message goes out when the sender is up; the result
  is whether it did.
\<close>

definition sendConfirmationEmail :: "env \<Rightarrow> state \<Rightarrow> string \<Rightarrow> bool \<times> state" where
  "sendConfirmationEmail e s recipient =
     (if mail_up e then (True, s\<lparr>outbox := outbox s @ [recipient]\<rparr>) else (False, s))"

text \<open>
  The body is the parsed JSON object, read at the keys the route destructures.
  \<open>insert_values\<close> is the parameter list of the INSERT; the key, the status and the
  creation time are not among the parameters and are filled in by the store.
\<close>

definition insert_values :: "(string \<rightharpoonup> string) \<Rightarrow> appointment" where
  "insert_values body =
     \<lparr>appt_id = 0, first_name = the (body ''firstName''), last_name = the (body ''lastName''),
      email = the (body ''email''), phone = the (body ''phone''),
      service = the (body ''service''), date = the (body ''date''), time = the (body ''time''),
      notes_col = or_empty (body ''notes''), status = [], created_at = 0\<rparr>"

definition post_appointments :: "env \<Rightarrow> state \<Rightarrow> (string \<rightharpoonup> string) \<Rightarrow> response \<times> state" where
  "post_appointments e s body =
     (if falsy (body ''firstName'') \<or> falsy (body ''lastName'') \<or> falsy (body ''email'') \<or>
         falsy (body ''phone'') \<or> falsy (body ''service'') \<or> falsy (body ''date'') \<or>
         falsy (body ''time'')
      then (Json_error 400 ''All required fields must be filled'', s)
      else
        (case query_existing s (the (body ''date'')) (the (body ''time'')) of
           None \<Rightarrow> (Json_error 500 ''Failed to book appointment'', s)
         | Some existing \<Rightarrow>
             if length existing > 0
             then (Json_error 409 ''This time slot is no longer available'', s)
             else
               (case insert_row e s (insert_values body) of
                  (None, s1) \<Rightarrow> (Json_error 500 ''Failed to book appointment'', s1)
                | (Some new_id, s1) \<Rightarrow>
                    (let (emailResult, s2) = sendConfirmationEmail e s1 (the (body ''email''))
                     in (Booked new_id emailResult, s2)))))"

subsection \<open>The admin routes\<close>

text \<open>
  \<^verbatim>\<open>requireAdmin\<close> lets a request through when its session has \<^verbatim>\<open>isAdmin\<close> set
  and answers 401 otherwise; each admin route below takes that flag first.
\<close>

definition validStatuses :: "string list" where
  "validStatuses = [''confirmed'', ''completed'', ''cancelled'', ''no-show'']"

definition includes_str :: "string list \<Rightarrow> string option \<Rightarrow> bool" where
  "includes_str xs v = (case v of None \<Rightarrow> False | Some x \<Rightarrow> x \<in> set xs)"

text \<open>PATCH /api/admin/appointments/:id\<close>

definition patch_appointment ::
  "bool \<Rightarrow> state \<Rightarrow> int option \<Rightarrow> (string \<rightharpoonup> string) \<Rightarrow> response \<times> state" where
  "patch_appointment isAdmin s parsed_id body =
     (if \<not> isAdmin then (Json_error 401 ''Unauthorized'', s)
      else if \<not> includes_str validStatuses (body ''status'')
      then (Json_error 400 ''Invalid status'', s)
      else if \<not> int4 parsed_id then (Json_error 500 ''Failed to update appointment'', s)
      else (Success ''Appointment updated'',
            update_status s (the (body ''status'')) (the parsed_id)))"

text \<open>DELETE /api/admin/appointments/:id\<close>

definition delete_appointment :: "bool \<Rightarrow> state \<Rightarrow> int option \<Rightarrow> response \<times> state" where
  "delete_appointment isAdmin s parsed_id =
     (if \<not> isAdmin then (Json_error 401 ''Unauthorized'', s)
      else if \<not> int4 parsed_id then (Json_error 500 ''Failed to delete appointment'', s)
      else (Success ''Appointment deleted'', delete_row s (the parsed_id)))"

text \<open>
  GET /api/admin/patients. The query groups the selected rows by
  \<^verbatim>\<open>email, first_name, last_name, phone\<close>, counts each group, takes the greatest
  date of each group and orders the groups by that date, descending. TEXT is ordered
  here character by character; SQL leaves the order among equal dates open, and the
  model keeps one of the orders it allows.

  The search filter uses JavaScript's \<^verbatim>\<open>toLowerCase\<close> and SQL's \<^verbatim>\<open>LOWER\<close> and
  \<^verbatim>\<open>LIKE\<close>; they are parameters of the model.
\<close>

record text_ops =
  toLowerCase :: "string \<Rightarrow> string"
  LOWER :: "string \<Rightarrow> string"
  LIKE :: "string \<Rightarrow> string \<Rightarrow> bool"

definition search_matches :: "text_ops \<Rightarrow> string \<Rightarrow> appointment \<Rightarrow> bool" where
  "search_matches ops pat a =
     (LIKE ops (LOWER ops (first_name a)) pat \<or> LIKE ops (LOWER ops (last_name a)) pat \<or>
      LIKE ops (LOWER ops (email a)) pat \<or> LIKE ops (LOWER ops (phone a)) pat)"

definition patient_of :: "appointment \<Rightarrow> string \<times> string \<times> string \<times> string" where
  "patient_of a = (email a, first_name a, last_name a, phone a)"

fun add_to_groups :: "appointment \<Rightarrow> patient_row list \<Rightarrow> patient_row list" where
  "add_to_groups a [] =
     [\<lparr>patient = patient_of a, total_appointments = 1, last_visit = date a\<rparr>]"
| "add_to_groups a (g # gs) =
     (if patient g = patient_of a
      then g\<lparr>total_appointments := total_appointments g + 1,
              last_visit := max (last_visit g) (date a)\<rparr> # gs
      else g # add_to_groups a gs)"

definition group_by_patient :: "appointment list \<Rightarrow> patient_row list" where
  "group_by_patient rows = fold add_to_groups rows []"

definition order_by_last_visit_desc :: "patient_row list \<Rightarrow> patient_row list" where
  "order_by_last_visit_desc gs = rev (sort_key last_visit gs)"

text \<open>The rows the query reads: all of them, or those the WHERE clause keeps.\<close>

definition select_for_patients :: "text_ops \<Rightarrow> state \<Rightarrow> string option \<Rightarrow> appointment list" where
  "select_for_patients ops s search =
     (if truthy search
      then filter (search_matches ops (''%'' @ toLowerCase ops (the search) @ ''%''))
             (appointments s)
      else appointments s)"

definition get_patients :: "bool \<Rightarrow> text_ops \<Rightarrow> state \<Rightarrow> string option \<Rightarrow> response" where
  "get_patients isAdmin ops s search =
     (if \<not> isAdmin then Json_error 401 ''Unauthorized''
      else if truthy search \<and> \<not> text_params_ok [''%'' @ toLowerCase ops (the search) @ ''%'']
      then Json_error 500 ''Failed to fetch patients''
      else Patients (order_by_last_visit_desc (group_by_patient (select_for_patients ops s search))))"

section \<open>Notions used to state the properties\<close>

text \<open>Booking exclusivity: no two rows that are not cancelled share a date and a time.\<close>

definition slot_exclusive :: "state \<Rightarrow> bool" where
  "slot_exclusive s =
     distinct (map (\<lambda>a. (date a, time a)) (filter not_cancelled (appointments s)))"

text \<open>
  The sequence counts up from 1, and every key in the table was handed out by it.
\<close>

definition keys_issued :: "state \<Rightarrow> bool" where
  "keys_issued s =
     (0 \<le> appointments_id_seq s \<and>
      list_all (\<lambda>a. appt_id a \<le> appointments_id_seq s) (appointments s))"

text \<open>No stored row holds U+0000 in a column the INSERT fills from the request.\<close>

definition store_clean :: "state \<Rightarrow> bool" where
  "store_clean s = list_all values_ok (appointments s)"

text \<open>A body in which each of the seven required fields is a non-empty string.\<close>

definition required_fields :: "string list" where
  "required_fields =
     [''firstName'', ''lastName'', ''email'', ''phone'', ''service'', ''date'', ''time'']"

definition all_required :: "(string \<rightharpoonup> string) \<Rightarrow> bool" where
  "all_required body = list_all (\<lambda>k. truthy (body k)) required_fields"

text \<open>The labels the generator's loops produce on a working day.\<close>

definition time_grid :: "string list" where
  "time_grid = hour_loop (openTime CLINIC_CONFIG) []"

text \<open>
  The weekday of a calendar date written YYYY-MM-DD (0 = Sunday), read off the date
  alone: the weekday of its midnight in UTC.
\<close>

definition calendar_weekday :: "string \<Rightarrow> int option" where
  "calendar_weekday d = (case Date_parse d of None \<Rightarrow> None | Some t \<Rightarrow> Some (WeekDay t))"

text \<open>The calendar date, as a day number, on the server's wall clock.\<close>

definition current_day :: "env \<Rightarrow> int" where
  "current_day e = Day (LocalTime e (now e))"

definition requested_day :: "string \<Rightarrow> int option" where
  "requested_day d = (case Date_parse d of None \<Rightarrow> None | Some t \<Rightarrow> Some (Day t))"


text \<open>The state a successful booking leaves.\<close>

definition booked_state :: "env \<Rightarrow> state \<Rightarrow> (string \<rightharpoonup> string) \<Rightarrow> state" where
  "booked_state e s body =
     \<lparr>appointments = appointments s @
        [(insert_values body)\<lparr>appt_id := appointments_id_seq s + 1, status := ''confirmed'',
            created_at := now e\<rparr>],
      appointments_id_seq = appointments_id_seq s + 1,
      outbox = (if mail_up e then outbox s @ [the (body ''email'')] else outbox s)\<rparr>"

text \<open>The label of the slot that starts \<open>m\<close> minutes after midnight.\<close>

definition label_of_minute :: "int \<Rightarrow> string" where
  "label_of_minute m = slot_label (m div 60) (m mod 60)"

text \<open>The rows of one group of the roster query, and what the query reports of them.\<close>

definition rows_of ::
  "appointment list \<Rightarrow> string \<times> string \<times> string \<times> string \<Rightarrow> appointment list" where
  "rows_of rows k = filter (\<lambda>a. patient_of a = k) rows"

definition summarises :: "appointment list \<Rightarrow> patient_row \<Rightarrow> bool" where
  "summarises rows g =
     (total_appointments g = length (rows_of rows (patient g)) \<and>
      last_visit g = Max (set (map date (rows_of rows (patient g)))))"

text \<open>
  The states the three writing routes reach from the empty store, whatever the requests
  and whoever sends them.
\<close>

inductive reachable :: "state \<Rightarrow> bool" where
  reachable_init: "reachable init_state"
| reachable_post: "reachable s \<Longrightarrow> reachable (snd (post_appointments e s body))"
| reachable_patch:
    "reachable s \<Longrightarrow> reachable (snd (patch_appointment isAdmin s parsed_id body))"
| reachable_delete:
    "reachable s \<Longrightarrow> reachable (snd (delete_appointment isAdmin s parsed_id))"

section \<open>Example requests and stores\<close>

text \<open>A server on UTC at 10:00 on Monday 1 January 2024, its mail transport down.\<close>

definition e0 :: env where
  "e0 = \<lparr>now = 1704103200000, LocalTZA = 0, mail_up = False\<rparr>"

definition ann_body :: "string \<rightharpoonup> string" where
  "ann_body = map_of
     [(''firstName'', ''Ann''), (''lastName'', ''Lee''), (''email'', ''ann@example.org''),
      (''phone'', ''555-0100''), (''service'', ''Cleaning''), (''date'', ''2024-01-08''),
      (''time'', ''09:00'')]"

definition bob_body :: "string \<rightharpoonup> string" where
  "bob_body = map_of
     [(''firstName'', ''Bob''), (''lastName'', ''Ray''), (''email'', ''bob@example.org''),
      (''phone'', ''555-0101''), (''service'', ''Whitening''), (''date'', ''2024-01-08''),
      (''time'', ''09:00''), (''notes'', ''first visit'')]"

definition no_phone_body :: "string \<rightharpoonup> string" where
  "no_phone_body = map_of
     [(''firstName'', ''Ann''), (''lastName'', ''Lee''), (''email'', ''ann@example.org''),
      (''service'', ''Cleaning''), (''date'', ''2024-01-08''), (''time'', ''09:00'')]"

definition soon_body :: "string \<rightharpoonup> string" where
  "soon_body = map_of
     [(''firstName'', ''Ann''), (''lastName'', ''Lee''), (''email'', ''ann@example.org''),
      (''phone'', ''555-0100''), (''service'', ''Cleaning''), (''date'', ''2024-01-08''),
      (''time'', ''soon'')]"

text \<open>A request for Ann's slot whose first name ends in U+0000.\<close>

definition nul_body :: "string \<rightharpoonup> string" where
  "nul_body = map_of
     [(''firstName'', [CHR ''Z'', CHR 0x00]), (''lastName'', ''Ray''),
      (''email'', ''zed@example.org''), (''phone'', ''555-0102''), (''service'', ''Cleaning''),
      (''date'', ''2024-01-08''), (''time'', ''09:00'')]"

definition ann_row :: appointment where
  "ann_row =
     \<lparr>appt_id = 1, first_name = ''Ann'', last_name = ''Lee'', email = ''ann@example.org'',
      phone = ''555-0100'', service = ''Cleaning'', date = ''2024-01-08'', time = ''09:00'',
      notes_col = [], status = ''confirmed'', created_at = 1704103200000\<rparr>"

definition bob_row :: appointment where
  "bob_row =
     \<lparr>appt_id = 2, first_name = ''Bob'', last_name = ''Ray'', email = ''bob@example.org'',
      phone = ''555-0101'', service = ''Whitening'', date = ''2024-01-08'', time = ''09:00'',
      notes_col = ''first visit'', status = ''confirmed'', created_at = 1704103200000\<rparr>"

definition after_ann :: state where
  "after_ann = \<lparr>appointments = [ann_row], appointments_id_seq = 1, outbox = []\<rparr>"

definition after_cancel :: state where
  "after_cancel =
     \<lparr>appointments = [ann_row\<lparr>status := ''cancelled''\<rparr>], appointments_id_seq = 1, outbox = []\<rparr>"

definition after_bob :: state where
  "after_bob =
     \<lparr>appointments = [ann_row\<lparr>status := ''cancelled''\<rparr>, bob_row], appointments_id_seq = 2,
      outbox = []\<rparr>"

definition double_booked :: state where
  "double_booked =
     \<lparr>appointments = [ann_row, bob_row], appointments_id_seq = 2, outbox = []\<rparr>"

definition after_soon :: state where
  "after_soon =
     \<lparr>appointments = [ann_row\<lparr>time := ''soon''\<rparr>], appointments_id_seq = 1, outbox = []\<rparr>"

text \<open>
  The empty table after \<open>n\<close> keys have been handed out, and the run on the last
  key but one: Ann books and gets the last key, and her appointment is cancelled.
\<close>

definition empty_at :: "int \<Rightarrow> state" where
  "empty_at n = \<lparr>appointments = [], appointments_id_seq = n, outbox = []\<rparr>"

definition last_booked :: state where
  "last_booked =
     \<lparr>appointments = [ann_row\<lparr>appt_id := 2147483647\<rparr>], appointments_id_seq = 2147483647,
      outbox = []\<rparr>"

definition last_cancelled :: state where
  "last_cancelled =
     \<lparr>appointments = [ann_row\<lparr>appt_id := 2147483647, status := ''cancelled''\<rparr>],
      appointments_id_seq = 2147483647, outbox = []\<rparr>"

text \<open>
  A store with two bookings on 8 January 2024, one of them at 18:00, a time the
  generator never produces.
\<close>

definition stale_state :: state where
  "stale_state =
     \<lparr>appointments = [ann_row\<lparr>time := ''18:00''\<rparr>, bob_row\<lparr>time := ''09:30''\<rparr>],
      appointments_id_seq = 2, outbox = []\<rparr>"

text \<open>
  A server in New York in winter (five hours behind UTC) at 10:00 local time on Monday
  8 January 2024.
\<close>

definition e_ny :: env where
  "e_ny = \<lparr>now = 1704726000000, LocalTZA = - 18000000, mail_up = False\<rparr>"

text \<open>
  Two bookings under one email address by two members of a family. No search is given
  in the examples, so the text operations are never called; \<open>exact_ops\<close> stands in
  for them.
\<close>

definition kim_row :: appointment where
  "kim_row = ann_row\<lparr>appt_id := 3, first_name := ''Kim'', date := ''2024-01-09''\<rparr>"

definition family_state :: state where
  "family_state = \<lparr>appointments = [ann_row, kim_row], appointments_id_seq = 3, outbox = []\<rparr>"

definition exact_ops :: text_ops where
  "exact_ops = \<lparr>toLowerCase = (\<lambda>x. x), LOWER = (\<lambda>x. x), LIKE = (\<lambda>x pat. x = pat)\<rparr>"

definition family_roster :: "patient_row list" where
  "family_roster =
     [\<lparr>patient = (''ann@example.org'', ''Kim'', ''Lee'', ''555-0100''),
       total_appointments = 1, last_visit = ''2024-01-09''\<rparr>,
      \<lparr>patient = (''ann@example.org'', ''Ann'', ''Lee'', ''555-0100''),
       total_appointments = 1, last_visit = ''2024-01-08''\<rparr>]"

section \<open>The slot generator and the calendar\<close>

lemma Date_parse_Some:
  assumes "Date_parse d = Some t"
  shows "date_pattern d \<and> (\<exists>k. t = k * msPerDay)"
  using assms by (auto elim!: Date_parse.elims split: if_splits simp: Let_def)

lemma Day_shift:
  assumes "0 \<le> z" and "z < msPerDay"
  shows "Day (k * msPerDay + z) = k"
  using assms by (simp add: Day_def msPerDay_def)

lemma Day_multiple: "Day (k * msPerDay) = k"
  by (simp add: Day_def msPerDay_def)

text \<open>
  On a server whose zone is UTC or east of it, \<^verbatim>\<open>getDay()\<close> of the parsed date is
  the weekday of the calendar date.
\<close>

lemma getDay_calendar:
  assumes "0 \<le> LocalTZA e" and "LocalTZA e < msPerDay"
  shows "getDay e (Date_parse d) = calendar_weekday d"
proof (cases "Date_parse d")
  case None
  then show ?thesis by (simp add: getDay_def calendar_weekday_def)
next
  case (Some t)
  then obtain k where "t = k * msPerDay"
    using Date_parse_Some by blast
  with Some assms show ?thesis
    by (simp add: getDay_def calendar_weekday_def WeekDay_def LocalTime_def Day_shift
        Day_multiple)
qed

text \<open>West of UTC it is the weekday of the day before.\<close>

lemma Day_shift_west:
  assumes "- msPerDay \<le> z" and "z < 0"
  shows "Day (k * msPerDay + z) = k - 1"
  using assms by (simp add: Day_def msPerDay_def)

lemma getDay_west_of_utc:
  assumes "- msPerDay \<le> LocalTZA e" and "LocalTZA e < 0" and "Date_parse d = Some t"
  shows "getDay e (Date_parse d) = Some (WeekDay (t - msPerDay))"
proof -
  obtain k where k: "t = k * msPerDay"
    using assms(3) Date_parse_Some by blast
  have "Day (k * msPerDay + LocalTZA e) = k - 1"
    using assms(1,2) by (rule Day_shift_west)
  moreover have "Day (k * msPerDay - msPerDay) = k - 1"
    using Day_multiple [of "k - 1"] by (simp add: algebra_simps)
  ultimately show ?thesis
    using assms(3) k by (simp add: getDay_def WeekDay_def LocalTime_def)
qed

text \<open>In any zone the guard follows the weekday that \<^verbatim>\<open>getDay()\<close> returns.\<close>

lemma generateTimeSlots_by_getDay:
  "generateTimeSlots e d =
     (if includes_int (workDays CLINIC_CONFIG) (getDay e (Date_parse d)) then time_grid else [])"
  by (simp add: generateTimeSlots_def time_grid_def)

lemma generateTimeSlots_closed:
  assumes "0 \<le> LocalTZA e" and "LocalTZA e < msPerDay" and "date_pattern d"
    and "\<not> includes_int (workDays CLINIC_CONFIG) (calendar_weekday d)"
  shows "generateTimeSlots e d = []"
  using assms by (simp add: generateTimeSlots_def getDay_calendar)

lemma generateTimeSlots_open:
  assumes "0 \<le> LocalTZA e" and "LocalTZA e < msPerDay"
    and "includes_int (workDays CLINIC_CONFIG) (calendar_weekday d)"
  shows "generateTimeSlots e d = time_grid"
  using assms by (simp add: generateTimeSlots_def getDay_calendar time_grid_def)

text \<open>The grid: sixteen labels from 09:00 to 16:30, thirty minutes apart.\<close>

lemma time_grid_value:
  "time_grid =
    [''09:00'', ''09:30'', ''10:00'', ''10:30'', ''11:00'', ''11:30'',
     ''12:00'', ''12:30'', ''13:00'', ''13:30'', ''14:00'', ''14:30'',
     ''15:00'', ''15:30'', ''16:00'', ''16:30'']"
  by code_simp

lemma time_grid_spacing:
  "time_grid =
     map (\<lambda>k. label_of_minute
                (openTime CLINIC_CONFIG * 60 + int k * slotDuration CLINIC_CONFIG))
       [0 ..< nat ((closeTime CLINIC_CONFIG - openTime CLINIC_CONFIG) * 60
                     div slotDuration CLINIC_CONFIG)]"
  by code_simp

lemma monday_on_utc:
  "generateTimeSlots e0 ''2024-01-08'' = time_grid \<and> length time_grid = 16 \<and>
   hd time_grid = ''09:00'' \<and> last time_grid = ''16:30''"
  by code_simp

text \<open>
  Claim C3. For every date whose day of the week is in \<open>workDays\<close> the generator
  returns \<open>(closeTime - openTime) * 60 / slotDuration\<close> slots, strictly increasing,
  each \<open>slotDuration\<close> minutes after the one before; a Monday yields 16 slots from
  09:00 to 16:30.

  The grid is as claimed (\<open>time_grid_value\<close>, \<open>time_grid_spacing\<close>), and a server
  on UTC or east of it returns it on every working day (\<open>generateTimeSlots_open\<close>).
  The code departs from the claim west of UTC: the date string is parsed as midnight UTC
  and \<^verbatim>\<open>getDay()\<close> reads the weekday of that instant in local time, which is still
  the day before. On a server in New York, Monday 8 January 2024 gets no slots.
\<close>

theorem monday_in_new_york:
  "calendar_weekday ''2024-01-08'' = Some 1 \<and>
   includes_int (workDays CLINIC_CONFIG) (calendar_weekday ''2024-01-08'') \<and>
   generateTimeSlots e_ny ''2024-01-08'' = []"
  by code_simp

text \<open>
  Claim C9. For every date whose day of the week is not in \<open>workDays\<close> the generator
  returns the empty sequence.

  A server on UTC or east of it does so (\<open>generateTimeSlots_closed\<close>). West of UTC the
  weekday is read one day early, as under claim C3: on a server in New York, Sunday
  7 January 2024 is taken for a Saturday and gets the sixteen slots of a working day.
\<close>

theorem sunday_in_new_york:
  "calendar_weekday ''2024-01-07'' = Some 0 \<and>
   \<not> includes_int (workDays CLINIC_CONFIG) (calendar_weekday ''2024-01-07'') \<and>
   generateTimeSlots e_ny ''2024-01-07'' =
     [''09:00'', ''09:30'', ''10:00'', ''10:30'', ''11:00'', ''11:30'',
      ''12:00'', ''12:30'', ''13:00'', ''13:30'', ''14:00'', ''14:30'',
      ''15:00'', ''15:30'', ''16:00'', ''16:30'']"
  by code_simp

section \<open>The availability route\<close>

lemma date_pattern_text_ok:
  assumes "date_pattern d"
  shows "text_params_ok [d]"
  using assms
  by (auto elim!: date_pattern.elims simp: text_params_ok_def is_digit_def)

lemma get_slots_malformed:
  assumes "\<not> date_pattern d"
  shows "get_slots e s d = Json_error 400 ''Invalid date format''"
  using assms by (simp add: get_slots_def)

text \<open>A date before the server's current date is refused, in any zone.\<close>

lemma get_slots_past:
  assumes "requested_day d = Some k" and "k < current_day e" and "LocalTZA e < msPerDay"
  shows "get_slots e s d = Json_error 400 ''Cannot book in the past''"
proof -
  from assms(1) obtain t where t: "Date_parse d = Some t" "k = Day t"
    by (auto simp: requested_day_def split: option.splits)
  then obtain j where "t = j * msPerDay"
    using Date_parse_Some by blast
  with t have tk: "t = k * msPerDay"
    by (simp add: Day_multiple)
  have pat: "date_pattern d"
    using t Date_parse_Some by blast
  have "k + 1 \<le> current_day e"
    using assms(2) by simp
  then have "(k + 1) * msPerDay \<le> current_day e * msPerDay"
    by (simp add: msPerDay_def)
  then have "t < setHours0 e (now e)"
    using assms(3) tk by (simp add: setHours0_def UTC_def current_day_def algebra_simps)
  then show ?thesis
    using pat t by (simp add: get_slots_def date_less_def Let_def)
qed

text \<open>
  The server's current date is served on UTC and east of it, and refused as past
  everywhere west of it.
\<close>

lemma get_slots_today:
  assumes "requested_day d = Some (current_day e)"
  shows "0 \<le> LocalTZA e \<Longrightarrow>
           get_slots e s d = Slots d (generateTimeSlots e d) (select_times s d)
             (filter (\<lambda>x. x \<notin> set (select_times s d)) (generateTimeSlots e d))"
    and "LocalTZA e < 0 \<Longrightarrow> get_slots e s d = Json_error 400 ''Cannot book in the past''"
proof -
  from assms obtain t where t: "Date_parse d = Some t" "current_day e = Day t"
    by (auto simp: requested_day_def split: option.splits)
  then obtain j where "t = j * msPerDay"
    using Date_parse_Some by blast
  with t have tk: "t = current_day e * msPerDay"
    by (simp add: Day_multiple)
  have pat: "date_pattern d"
    using t Date_parse_Some by blast
  have today: "setHours0 e (now e) = t - LocalTZA e"
    using tk by (simp add: setHours0_def UTC_def current_day_def)
  show "0 \<le> LocalTZA e \<Longrightarrow>
           get_slots e s d = Slots d (generateTimeSlots e d) (select_times s d)
             (filter (\<lambda>x. x \<notin> set (select_times s d)) (generateTimeSlots e d))"
    using pat t today by (simp add: get_slots_def date_less_def Let_def)
  show "LocalTZA e < 0 \<Longrightarrow> get_slots e s d = Json_error 400 ''Cannot book in the past''"
    using pat t today by (simp add: get_slots_def date_less_def Let_def)
qed

text \<open>
  Claim C8. GET /api/slots/:date refuses with 400 a date that does not match YYYY-MM-DD
  and a date before the current date, and does not refuse the current date.

  The first two parts hold (\<open>get_slots_malformed\<close>, \<open>get_slots_past\<close>). The third
  holds on UTC and east of it and fails west of it (\<open>get_slots_today\<close>): the requested
  date is midnight UTC, \<open>today\<close> is midnight local time, and west of UTC the first is
  hours before the second. On a server in New York at 10:00 on 8 January 2024 a request
  for 8 January 2024 is answered 400.
\<close>

theorem today_in_new_york:
  "requested_day ''2024-01-08'' = Some (current_day e_ny) \<and>
   get_slots e_ny s ''2024-01-08'' = Json_error 400 ''Cannot book in the past''"
proof -
  have same_day: "requested_day ''2024-01-08'' = Some (current_day e_ny)"
    by code_simp
  have "LocalTZA e_ny < 0"
    by (simp add: e_ny_def)
  with same_day show ?thesis
    by (simp add: get_slots_today(2))
qed

text \<open>
  Claim C4. Whenever the route answers with slots, \<open>availableSlots\<close> is \<open>allSlots\<close>
  with every element of \<open>bookedSlots\<close> removed, in the order of \<open>allSlots\<close>, hence a
  subsequence of it; \<open>bookedSlots\<close> is what the store returned for the date, not
  intersected with the grid, so a booked time outside the grid is in \<open>bookedSlots\<close>
  and never in \<open>availableSlots\<close>.
\<close>

theorem get_slots_available:
  assumes "get_slots e s d = Slots d' allSlots bookedSlots availableSlots"
  shows "allSlots = generateTimeSlots e d \<and>
         bookedSlots = select_times s d \<and>
         availableSlots = filter (\<lambda>x. x \<notin> set bookedSlots) allSlots \<and>
         subseq availableSlots allSlots \<and>
         set availableSlots = set allSlots - set bookedSlots \<and>
         set bookedSlots
           = time ` {a \<in> set (appointments s). date a = d \<and> status a \<noteq> ''cancelled''} \<and>
         (\<forall>t \<in> set bookedSlots. t \<notin> set availableSlots)"
proof -
  have "set (select_times s d)
          = time ` {a \<in> set (appointments s). date a = d \<and> status a \<noteq> ''cancelled''}"
    by (auto simp: select_times_def not_cancelled_def)
  moreover
  from assms have eqs: "allSlots = generateTimeSlots e d" "bookedSlots = select_times s d"
    "availableSlots = filter (\<lambda>x. x \<notin> set bookedSlots) allSlots"
    by (auto simp: get_slots_def Let_def split: if_splits)
  have "subseq (filter (\<lambda>x. x \<notin> set bookedSlots) allSlots) allSlots"
    by (rule subseq_filter_left)
  moreover
  have "set (filter (\<lambda>x. x \<notin> set bookedSlots) allSlots) = set allSlots - set bookedSlots"
    by auto
  ultimately show ?thesis
    using eqs by auto
qed

lemma stale_slots:
  "get_slots e0 stale_state ''2024-01-08'' =
     Slots ''2024-01-08'' time_grid [''18:00'', ''09:30''] (remove1 ''09:30'' time_grid)"
  by code_simp

lemma off_grid: "''18:00'' \<notin> set time_grid"
  by code_simp

theorem get_slots_available_witness:
  "get_slots e0 stale_state ''2024-01-08'' =
     Slots ''2024-01-08'' time_grid [''18:00'', ''09:30''] (remove1 ''09:30'' time_grid) \<and>
   select_times stale_state ''2024-01-08'' = [''18:00'', ''09:30''] \<and>
   subseq (remove1 ''09:30'' time_grid) time_grid \<and>
   ''18:00'' \<notin> set time_grid \<and>
   ''18:00'' \<notin> set (remove1 ''09:30'' time_grid) \<and>
   ''09:30'' \<notin> set (remove1 ''09:30'' time_grid)"
proof -
  note facts = get_slots_available [OF stale_slots]
  have sel: "select_times stale_state ''2024-01-08'' = [''18:00'', ''09:30'']"
    using facts by metis
  have sub: "subseq (remove1 ''09:30'' time_grid) time_grid"
    using facts by blast
  have out: "\<forall>t \<in> set [''18:00'', ''09:30'']. t \<notin> set (remove1 ''09:30'' time_grid)"
    using facts by blast
  then have "''18:00'' \<notin> set (remove1 ''09:30'' time_grid)"
    and "''09:30'' \<notin> set (remove1 ''09:30'' time_grid)"
    by simp_all
  with sel sub stale_slots off_grid show ?thesis
    by (intro conjI)
qed

section \<open>Booking: validation, conflict and insertion\<close>

lemma falsy_iff: "falsy v = (\<not> truthy v)"
  by (cases v) (simp_all add: falsy_def truthy_def)

lemma all_required_iff:
  "all_required body =
     (\<not> (falsy (body ''firstName'') \<or> falsy (body ''lastName'') \<or> falsy (body ''email'') \<or>
         falsy (body ''phone'') \<or> falsy (body ''service'') \<or> falsy (body ''date'') \<or>
         falsy (body ''time'')))"
  by (auto simp: all_required_def required_fields_def falsy_iff)

lemma select_existing_empty_iff:
  "(select_existing s d t = []) =
     (\<forall>a \<in> set (appointments s). \<not> (date a = d \<and> time a = t \<and> status a \<noteq> ''cancelled''))"
  by (auto simp: select_existing_def not_cancelled_def filter_empty_conv)

lemma values_ok_slot:
  assumes "values_ok a"
  shows "text_params_ok [date a, time a]"
  using assms by (simp add: values_ok_def text_params_ok_def)

lemma values_ok_slot_body:
  assumes "values_ok (insert_values body)"
  shows "text_params_ok [the (body ''date''), the (body ''time'')]"
  using values_ok_slot [OF assms] by (simp add: insert_values_def)

text \<open>The outcomes of a booking whose required fields are present.\<close>

lemma post_appointments_unbound:
  assumes "all_required body"
    and "\<not> text_params_ok [the (body ''date''), the (body ''time'')]"
  shows "post_appointments e s body = (Json_error 500 ''Failed to book appointment'', s)"
  using assms unfolding post_appointments_def all_required_iff
  by (simp add: query_existing_def)

lemma post_appointments_conflict:
  assumes "all_required body"
    and "text_params_ok [the (body ''date''), the (body ''time'')]"
    and "select_existing s (the (body ''date'')) (the (body ''time'')) \<noteq> []"
  shows "post_appointments e s body
           = (Json_error 409 ''This time slot is no longer available'', s)"
  using assms unfolding post_appointments_def all_required_iff
  by (simp add: query_existing_def)

lemma post_appointments_refused:
  assumes "all_required body"
    and "text_params_ok [the (body ''date''), the (body ''time'')]"
    and "select_existing s (the (body ''date'')) (the (body ''time'')) = []"
    and "\<not> values_ok (insert_values body) \<or> int4_max < appointments_id_seq s + 1"
  shows "post_appointments e s body = (Json_error 500 ''Failed to book appointment'', s)"
  using assms unfolding post_appointments_def all_required_iff
  by (auto simp: query_existing_def insert_row_def Let_def)

lemma post_appointments_duplicate:
  assumes "all_required body"
    and "values_ok (insert_values body)"
    and "select_existing s (the (body ''date'')) (the (body ''time'')) = []"
    and "appointments_id_seq s + 1 \<le> int4_max"
    and "appointments_id_seq s + 1 \<in> appt_id ` set (appointments s)"
  shows "post_appointments e s body
           = (Json_error 500 ''Failed to book appointment'',
              s\<lparr>appointments_id_seq := appointments_id_seq s + 1\<rparr>)"
  using assms values_ok_slot_body [OF assms(2)] unfolding post_appointments_def all_required_iff
  by (simp add: query_existing_def insert_row_def Let_def)

lemma post_appointments_free:
  assumes "all_required body"
    and "values_ok (insert_values body)"
    and "select_existing s (the (body ''date'')) (the (body ''time'')) = []"
    and "appointments_id_seq s + 1 \<le> int4_max"
    and "appointments_id_seq s + 1 \<notin> appt_id ` set (appointments s)"
  shows "post_appointments e s body
           = (Booked (appointments_id_seq s + 1) (mail_up e), booked_state e s body)"
  using assms values_ok_slot_body [OF assms(2)] unfolding post_appointments_def all_required_iff
  by (simp add: query_existing_def Let_def insert_row_def sendConfirmationEmail_def
      booked_state_def)

text \<open>Every booking ends in one of three ways.\<close>

lemma post_appointments_outcome:
  "(post_appointments e s body
      = (Booked (appointments_id_seq s + 1) (mail_up e), booked_state e s body) \<and>
    all_required body \<and> values_ok (insert_values body) \<and>
    select_existing s (the (body ''date'')) (the (body ''time'')) = [] \<and>
    appointments_id_seq s + 1 \<le> int4_max \<and>
    appointments_id_seq s + 1 \<notin> appt_id ` set (appointments s)) \<or>
   (\<exists>c m. post_appointments e s body = (Json_error c m, s)) \<or>
   (\<exists>c m. post_appointments e s body
      = (Json_error c m, s\<lparr>appointments_id_seq := appointments_id_seq s + 1\<rparr>))"
proof (cases "all_required body")
  case False
  then have "post_appointments e s body
               = (Json_error 400 ''All required fields must be filled'', s)"
    unfolding post_appointments_def all_required_iff by (simp only: not_not if_True)
  then show ?thesis by simp
next
  case req: True
  show ?thesis
  proof (cases "text_params_ok [the (body ''date''), the (body ''time'')]")
    case False
    with req show ?thesis
      by (simp add: post_appointments_unbound)
  next
    case bound: True
    show ?thesis
    proof (cases "select_existing s (the (body ''date'')) (the (body ''time'')) = []")
      case False
      with req bound show ?thesis
        by (simp add: post_appointments_conflict)
    next
      case free: True
      show ?thesis
      proof (cases "values_ok (insert_values body) \<and> appointments_id_seq s + 1 \<le> int4_max")
        case False
        then have "\<not> values_ok (insert_values body) \<or> int4_max < appointments_id_seq s + 1"
          by auto
        with req bound free show ?thesis
          by (simp add: post_appointments_refused)
      next
        case ok: True
        show ?thesis
        proof (cases "appointments_id_seq s + 1 \<in> appt_id ` set (appointments s)")
          case True
          with req free ok show ?thesis
            by (simp add: post_appointments_duplicate)
        next
          case False
          with req free ok show ?thesis
            by (simp add: post_appointments_free)
        qed
      qed
    qed
  qed
qed

lemma post_appointments_BookedD:
  assumes "post_appointments e s body = (Booked i m, s1)"
  shows "all_required body \<and> values_ok (insert_values body) \<and>
         select_existing s (the (body ''date'')) (the (body ''time'')) = [] \<and>
         i = appointments_id_seq s + 1 \<and> i \<le> int4_max \<and>
         i \<notin> appt_id ` set (appointments s) \<and> m = mail_up e \<and> s1 = booked_state e s body"
  using post_appointments_outcome [of e s body] assms by auto

lemma post_appointments_rows:
  "(post_appointments e s body
      = (Booked (appointments_id_seq s + 1) (mail_up e), booked_state e s body) \<and>
    values_ok (insert_values body) \<and>
    select_existing s (the (body ''date'')) (the (body ''time'')) = []) \<or>
   appointments (snd (post_appointments e s body)) = appointments s"
  using post_appointments_outcome [of e s body] by auto

lemma select_existing_booked_state:
  assumes "all_required body"
  shows "select_existing (booked_state e s body) (the (body ''date'')) (the (body ''time'')) \<noteq> []"
  by (simp add: select_existing_empty_iff booked_state_def insert_values_def)

lemma select_existing_after_cancel:
  assumes "select_existing s d t = []"
  shows "select_existing
           (update_status (booked_state e s body) ''cancelled'' (appointments_id_seq s + 1)) d t = []"
  using assms
  by (auto simp: select_existing_empty_iff booked_state_def update_status_def)

lemma keys_after_cancel:
  assumes "keys_issued s"
  shows "appointments_id_seq s + 2 \<notin>
           appt_id ` set (appointments
              (update_status (booked_state e s body) st (appointments_id_seq s + 1)))"
  using assms
  by (auto simp: keys_issued_def list_all_iff booked_state_def update_status_def)

text \<open>The example run, step by step.\<close>

lemma book_ann: "post_appointments e0 init_state ann_body = (Booked 1 False, after_ann)"
  by code_simp

lemma cancel_ann:
  "patch_appointment True after_ann (Some 1) [''status'' \<mapsto> ''cancelled'']
     = (Success ''Appointment updated'', after_cancel)"
  by code_simp

lemma book_bob: "post_appointments e0 after_cancel bob_body = (Booked 2 False, after_bob)"
  by code_simp

lemma confirm_ann:
  "patch_appointment True after_bob (Some 1) [''status'' \<mapsto> ''confirmed'']
     = (Success ''Appointment updated'', double_booked)"
  by code_simp

text \<open>
  Claim C7. A booking request in which a required field (first name, last name, email,
  phone, service, date, time) is missing, or is the empty string, is answered 400 and
  leaves the table, the key sequence and the outbox as they were.
\<close>

theorem post_appointments_missing_field:
  assumes "falsy (body ''firstName'') \<or> falsy (body ''lastName'') \<or> falsy (body ''email'') \<or>
           falsy (body ''phone'') \<or> falsy (body ''service'') \<or> falsy (body ''date'') \<or>
           falsy (body ''time'')"
  shows "post_appointments e s body = (Json_error 400 ''All required fields must be filled'', s)"
  using assms unfolding post_appointments_def by (simp only: if_True)

theorem post_appointments_missing_field_witness:
  "no_phone_body ''phone'' = None \<and>
   post_appointments e0 after_ann no_phone_body
     = (Json_error 400 ''All required fields must be filled'', after_ann)"
proof -
  have absent: "no_phone_body ''phone'' = None"
    by (simp add: no_phone_body_def)
  then have "falsy (no_phone_body ''phone'')"
    by (simp add: falsy_def)
  then show ?thesis
    using post_appointments_missing_field [of no_phone_body e0 after_ann] absent by simp
qed

section \<open>Invariants of the reachable states\<close>

lemma keys_issued_init: "keys_issued init_state"
  by (simp add: keys_issued_def init_state_def)

lemma keys_issued_booked_state:
  assumes "keys_issued s"
  shows "keys_issued (booked_state e s body)"
  using assms by (auto simp: keys_issued_def booked_state_def list_all_iff)

lemma post_appointments_keys:
  assumes "keys_issued s"
  shows "keys_issued (snd (post_appointments e s body))"
proof -
  consider
    (booked) "post_appointments e s body
        = (Booked (appointments_id_seq s + 1) (mail_up e), booked_state e s body)"
  | (same) "snd (post_appointments e s body) = s"
  | (dup) "snd (post_appointments e s body)
        = s\<lparr>appointments_id_seq := appointments_id_seq s + 1\<rparr>"
    using post_appointments_outcome [of e s body] by auto
  then show ?thesis
  proof cases
    case booked
    with assms show ?thesis
      by (simp add: keys_issued_booked_state)
  next
    case same
    with assms show ?thesis
      by simp
  next
    case dup
    with assms show ?thesis
      by (auto simp: keys_issued_def list_all_iff)
  qed
qed

lemma patch_appointment_keys:
  assumes "keys_issued s"
  shows "keys_issued (snd (patch_appointment isAdmin s parsed_id body))"
  using assms
  by (auto simp: patch_appointment_def update_status_def keys_issued_def list_all_iff)

lemma delete_appointment_keys:
  assumes "keys_issued s"
  shows "keys_issued (snd (delete_appointment isAdmin s parsed_id))"
  using assms
  by (auto simp: delete_appointment_def delete_row_def keys_issued_def list_all_iff)

lemma reachable_keys_issued:
  assumes "reachable s"
  shows "keys_issued s"
  using assms
  by (induction rule: reachable.induct)
    (simp_all add: keys_issued_init post_appointments_keys patch_appointment_keys
      delete_appointment_keys)

text \<open>No request brings U+0000 into the table.\<close>

lemma post_appointments_clean:
  assumes "store_clean s"
  shows "store_clean (snd (post_appointments e s body))"
proof -
  consider
    (booked) "post_appointments e s body
        = (Booked (appointments_id_seq s + 1) (mail_up e), booked_state e s body)"
      "values_ok (insert_values body)"
  | (same) "appointments (snd (post_appointments e s body)) = appointments s"
    using post_appointments_rows [of e s body] by blast
  then show ?thesis
  proof cases
    case booked
    with assms show ?thesis
      by (simp add: store_clean_def booked_state_def values_ok_def)
  next
    case same
    with assms show ?thesis
      by (simp add: store_clean_def)
  qed
qed

lemma patch_appointment_clean:
  assumes "store_clean s"
  shows "store_clean (snd (patch_appointment isAdmin s parsed_id body))"
  using assms
  by (auto simp: patch_appointment_def update_status_def store_clean_def list_all_iff
      values_ok_def)

lemma delete_appointment_clean:
  assumes "store_clean s"
  shows "store_clean (snd (delete_appointment isAdmin s parsed_id))"
  using assms
  by (auto simp: delete_appointment_def delete_row_def store_clean_def list_all_iff)

lemma reachable_store_clean:
  assumes "reachable s"
  shows "store_clean s"
  using assms
  by (induction rule: reachable.induct)
    (simp_all add: post_appointments_clean patch_appointment_clean delete_appointment_clean,
      simp add: store_clean_def init_state_def)

text \<open>
  Every key up to the last is reached on an empty table: book, then delete, again and
  again.
\<close>

lemma all_required_ann: "all_required ann_body"
  by code_simp

lemma all_required_bob: "all_required bob_body"
  by code_simp

lemma values_ok_ann: "values_ok (insert_values ann_body)"
  by code_simp

lemma values_ok_bob: "values_ok (insert_values bob_body)"
  by code_simp

lemma empty_at_step:
  assumes "0 \<le> n" and "n + 1 \<le> int4_max"
  shows "snd (delete_appointment True (snd (post_appointments e0 (empty_at n) ann_body))
           (Some (n + 1))) = empty_at (n + 1)"
proof -
  have "post_appointments e0 (empty_at n) ann_body
          = (Booked (n + 1) (mail_up e0), booked_state e0 (empty_at n) ann_body)"
    using post_appointments_free [of ann_body "empty_at n" e0] assms
    by (simp add: all_required_ann values_ok_ann empty_at_def select_existing_def)
  moreover have "int4 (Some (n + 1))"
    using assms by (simp add: int4_def)
  ultimately show ?thesis
    by (simp add: delete_appointment_def delete_row_def booked_state_def empty_at_def e0_def)
qed

lemma empty_at_reachable:
  assumes "int n \<le> int4_max"
  shows "reachable (empty_at (int n))"
  using assms
proof (induction n)
  case 0
  then show ?case
    using reachable_init by (simp add: empty_at_def init_state_def)
next
  case (Suc n)
  then have "reachable (empty_at (int n))"
    by simp
  then have "reachable (snd (delete_appointment True
      (snd (post_appointments e0 (empty_at (int n)) ann_body)) (Some (int n + 1))))"
    by (intro reachable_delete reachable_post)
  moreover have "int n + 1 \<le> int4_max"
    using Suc.prems by simp
  ultimately have "reachable (empty_at (int n + 1))"
    by (simp add: empty_at_step)
  then show ?case
    by (simp add: add.commute)
qed

lemma last_key_reachable: "reachable (empty_at 2147483646)"
  using empty_at_reachable [of 2147483646] by (simp add: int4_max_def)

section \<open>Conflict and re-booking\<close>

text \<open>The run on the last key of the sequence.\<close>

lemma book_last:
  "post_appointments e0 (empty_at 2147483646) ann_body = (Booked 2147483647 False, last_booked)"
  by code_simp

lemma cancel_last:
  "patch_appointment True last_booked (Some 2147483647) [''status'' \<mapsto> ''cancelled'']
     = (Success ''Appointment updated'', last_cancelled)"
  by code_simp

lemma rebook_last:
  "post_appointments e0 last_cancelled bob_body
     = (Json_error 500 ''Failed to book appointment'', last_cancelled)"
  by code_simp

lemma rebook_nul:
  "post_appointments e0 after_cancel nul_body
     = (Json_error 500 ''Failed to book appointment'', after_cancel)"
  by code_simp

text \<open>After a booking is cancelled its slot is free and the next key is fresh.\<close>

lemma cancel_frees_slot:
  assumes booked: "post_appointments e s body = (Booked i m, s1)"
    and keys: "keys_issued s"
  shows "patch_appointment True s1 (Some i) [''status'' \<mapsto> ''cancelled'']
           = (Success ''Appointment updated'', update_status s1 ''cancelled'' i) \<and>
         select_existing (update_status s1 ''cancelled'' i)
           (the (body ''date'')) (the (body ''time'')) = [] \<and>
         appointments_id_seq (update_status s1 ''cancelled'' i) = i \<and>
         i + 1 \<notin> appt_id ` set (appointments (update_status s1 ''cancelled'' i)) \<and>
         text_params_ok [the (body ''date''), the (body ''time'')]"
proof -
  note D = post_appointments_BookedD [OF booked]
  let ?s2 = "update_status s1 ''cancelled'' i"
  have i4: "int4 (Some i)"
    using D keys by (simp add: int4_def int4_max_def keys_issued_def)
  have patch: "patch_appointment True s1 (Some i) [''status'' \<mapsto> ''cancelled'']
                 = (Success ''Appointment updated'', ?s2)"
    using i4 by (simp add: patch_appointment_def includes_str_def validStatuses_def)
  have free: "select_existing ?s2 (the (body ''date'')) (the (body ''time'')) = []"
    using D select_existing_after_cancel [of s _ _ e body] by simp
  have seq: "appointments_id_seq ?s2 = i"
    using D by (simp add: update_status_def booked_state_def)
  have "appointments_id_seq s + 2 \<notin> appt_id ` set (appointments ?s2)"
    using keys D keys_after_cancel [of s e body "''cancelled''"] by simp
  moreover have "i + 1 = appointments_id_seq s + 2"
    using D by simp
  ultimately have fresh: "i + 1 \<notin> appt_id ` set (appointments ?s2)"
    by metis
  have bound: "text_params_ok [the (body ''date''), the (body ''time'')]"
    using D values_ok_slot_body [of body] by simp
  from patch free seq fresh bound show ?thesis
    by (intro conjI)
qed

text \<open>
  Claim C2, as amended. In every reachable state and for a request with all required
  fields present: when a row that is not cancelled exists at the request's date and
  time, the booking is answered 409 and the state is unchanged; when a booking succeeds
  with 201, a second request for the same date and time is answered 409; and once the
  first appointment is set to cancelled through the admin route, a request for the same
  date and time is booked again, provided none of its text fields holds U+0000 and the
  key sequence of the 32-bit serial column has a key left; otherwise the INSERT fails and
  the request is answered 500.
\<close>

theorem booking_conflict_then_rebooking:
  assumes "reachable s" and "all_required body" and "all_required body2"
    and "body2 ''date'' = body ''date''" and "body2 ''time'' = body ''time''"
  shows
    "((\<exists>a \<in> set (appointments s). date a = the (body ''date'') \<and>
          time a = the (body ''time'') \<and> status a \<noteq> ''cancelled'') \<longrightarrow>
        post_appointments e s body
          = (Json_error 409 ''This time slot is no longer available'', s)) \<and>
     (\<forall>i m s1. post_appointments e s body = (Booked i m, s1) \<longrightarrow>
        post_appointments e2 s1 body2
          = (Json_error 409 ''This time slot is no longer available'', s1) \<and>
        (values_ok (insert_values body2) \<and> i < int4_max \<longrightarrow>
           (\<exists>s2 s3. patch_appointment True s1 (Some i) [''status'' \<mapsto> ''cancelled'']
                      = (Success ''Appointment updated'', s2) \<and>
                    post_appointments e3 s2 body2 = (Booked (i + 1) (mail_up e3), s3))) \<and>
        (\<not> (values_ok (insert_values body2) \<and> i < int4_max) \<longrightarrow>
           (\<exists>s2. patch_appointment True s1 (Some i) [''status'' \<mapsto> ''cancelled'']
                      = (Success ''Appointment updated'', s2) \<and>
                 post_appointments e3 s2 body2
                   = (Json_error 500 ''Failed to book appointment'', s2))))"
proof (intro conjI impI allI)
  assume "\<exists>a \<in> set (appointments s). date a = the (body ''date'') \<and>
          time a = the (body ''time'') \<and> status a \<noteq> ''cancelled''"
  then obtain a where a: "a \<in> set (appointments s)" "date a = the (body ''date'')"
    "time a = the (body ''time'')" "status a \<noteq> ''cancelled''"
    by blast
  have "values_ok a"
    using reachable_store_clean [OF assms(1)] a(1) by (simp add: store_clean_def list_all_iff)
  then have bound: "text_params_ok [the (body ''date''), the (body ''time'')]"
    using values_ok_slot [of a] a(2,3) by simp
  have "select_existing s (the (body ''date'')) (the (body ''time'')) \<noteq> []"
    using a by (auto simp: select_existing_empty_iff)
  with assms(2) bound
  show "post_appointments e s body = (Json_error 409 ''This time slot is no longer available'', s)"
    by (rule post_appointments_conflict)
next
  fix i m s1
  assume booked: "post_appointments e s body = (Booked i m, s1)"
  note D = post_appointments_BookedD [OF booked]
  have same: "the (body2 ''date'') = the (body ''date'')"
    "the (body2 ''time'') = the (body ''time'')"
    using assms(4,5) by simp_all
  have bound: "text_params_ok [the (body2 ''date''), the (body2 ''time'')]"
    using D values_ok_slot_body [of body] by (simp add: same)
  have "select_existing s1 (the (body2 ''date'')) (the (body2 ''time'')) \<noteq> []"
    using D select_existing_booked_state [OF assms(2), of e s] by (simp add: same)
  with assms(3) bound
  show "post_appointments e2 s1 body2
          = (Json_error 409 ''This time slot is no longer available'', s1)"
    by (rule post_appointments_conflict)
next
  fix i m s1
  assume booked: "post_appointments e s body = (Booked i m, s1)"
    and ok: "values_ok (insert_values body2) \<and> i < int4_max"
  note C = cancel_frees_slot [OF booked reachable_keys_issued [OF assms(1)]]
  have same: "the (body2 ''date'') = the (body ''date'')"
    "the (body2 ''time'') = the (body ''time'')"
    using assms(4,5) by simp_all
  let ?s2 = "update_status s1 ''cancelled'' i"
  have free: "select_existing ?s2 (the (body2 ''date'')) (the (body2 ''time'')) = []"
    using C by (simp add: same)
  have room: "appointments_id_seq ?s2 + 1 \<le> int4_max"
    using ok C by simp
  have fresh: "appointments_id_seq ?s2 + 1 \<notin> appt_id ` set (appointments ?s2)"
    using C by simp
  have clean: "values_ok (insert_values body2)"
    using ok by simp
  have "post_appointments e3 ?s2 body2
          = (Booked (appointments_id_seq ?s2 + 1) (mail_up e3), booked_state e3 ?s2 body2)"
    using assms(3) clean free room fresh by (rule post_appointments_free)
  with C
  show "\<exists>s2 s3. patch_appointment True s1 (Some i) [''status'' \<mapsto> ''cancelled'']
                   = (Success ''Appointment updated'', s2) \<and>
                 post_appointments e3 s2 body2 = (Booked (i + 1) (mail_up e3), s3)"
    by auto
next
  fix i m s1
  assume booked: "post_appointments e s body = (Booked i m, s1)"
    and no: "\<not> (values_ok (insert_values body2) \<and> i < int4_max)"
  note C = cancel_frees_slot [OF booked reachable_keys_issued [OF assms(1)]]
  have same: "the (body2 ''date'') = the (body ''date'')"
    "the (body2 ''time'') = the (body ''time'')"
    using assms(4,5) by simp_all
  let ?s2 = "update_status s1 ''cancelled'' i"
  have bound: "text_params_ok [the (body2 ''date''), the (body2 ''time'')]"
    using C by (simp add: same)
  have free: "select_existing ?s2 (the (body2 ''date'')) (the (body2 ''time'')) = []"
    using C by (simp add: same)
  have "\<not> values_ok (insert_values body2) \<or> int4_max < appointments_id_seq ?s2 + 1"
    using no C by auto
  with assms(3) bound free
  have "post_appointments e3 ?s2 body2 = (Json_error 500 ''Failed to book appointment'', ?s2)"
    by (rule post_appointments_refused)
  with C
  show "\<exists>s2. patch_appointment True s1 (Some i) [''status'' \<mapsto> ''cancelled'']
                = (Success ''Appointment updated'', s2) \<and>
              post_appointments e3 s2 body2 = (Json_error 500 ''Failed to book appointment'', s2)"
    by auto
qed

theorem booking_conflict_then_rebooking_witness:
  "reachable init_state \<and> all_required ann_body \<and> all_required bob_body \<and>
   post_appointments e0 init_state ann_body = (Booked 1 False, after_ann) \<and>
   post_appointments e0 after_ann bob_body
     = (Json_error 409 ''This time slot is no longer available'', after_ann) \<and>
   values_ok (insert_values bob_body) \<and>
   (\<exists>s2 s3. patch_appointment True after_ann (Some 1) [''status'' \<mapsto> ''cancelled'']
               = (Success ''Appointment updated'', s2) \<and>
             post_appointments e0 s2 bob_body = (Booked 2 False, s3))"
proof -
  have same: "bob_body ''date'' = ann_body ''date''" "bob_body ''time'' = ann_body ''time''"
    by (simp_all add: ann_body_def bob_body_def)
  have room: "(1::int) < int4_max"
    by (simp add: int4_max_def)
  have mail: "mail_up e0 = False"
    by (simp add: e0_def)
  note inst = booking_conflict_then_rebooking
    [OF reachable_init all_required_ann all_required_bob same, of e0 e0 e0]
  from inst book_ann values_ok_bob room mail show ?thesis
    using all_required_ann all_required_bob reachable_init by auto
qed

text \<open>
  The claim as the specification has it fails in its last part. After Ann's booking is
  cancelled, a request for her slot that has every required field and a first name ending
  in U+0000 is answered 500; and when Ann's booking took the last key of the sequence,
  which bookings and deletions do reach, Bob's request for the slot is answered 500.
\<close>

theorem rebooking_answers_500:
  "all_required nul_body \<and>
   nul_body ''date'' = ann_body ''date'' \<and> nul_body ''time'' = ann_body ''time'' \<and>
   post_appointments e0 init_state ann_body = (Booked 1 False, after_ann) \<and>
   patch_appointment True after_ann (Some 1) [''status'' \<mapsto> ''cancelled'']
     = (Success ''Appointment updated'', after_cancel) \<and>
   post_appointments e0 after_cancel nul_body
     = (Json_error 500 ''Failed to book appointment'', after_cancel) \<and>
   reachable (empty_at 2147483646) \<and> all_required bob_body \<and>
   bob_body ''date'' = ann_body ''date'' \<and> bob_body ''time'' = ann_body ''time'' \<and>
   post_appointments e0 (empty_at 2147483646) ann_body = (Booked 2147483647 False, last_booked) \<and>
   patch_appointment True last_booked (Some 2147483647) [''status'' \<mapsto> ''cancelled'']
     = (Success ''Appointment updated'', last_cancelled) \<and>
   post_appointments e0 last_cancelled bob_body
     = (Json_error 500 ''Failed to book appointment'', last_cancelled)"
proof -
  have "all_required nul_body"
    by code_simp
  moreover
  have "nul_body ''date'' = ann_body ''date''" "nul_body ''time'' = ann_body ''time''"
    "bob_body ''date'' = ann_body ''date''" "bob_body ''time'' = ann_body ''time''"
    by (simp_all add: nul_body_def ann_body_def bob_body_def)
  ultimately show ?thesis
    using book_ann cancel_ann rebook_nul last_key_reachable all_required_bob book_last
      cancel_last rebook_last
    by (intro conjI)
qed

section \<open>The stored time\<close>

text \<open>
  Claim C5, as amended. The row a successful booking inserts holds the request's time
  string as it was sent, and that string is not empty. The route checks nothing else about
  it: it need not be of the form HH:MM, nor one of the generator's slots.
\<close>

theorem booked_time_is_request_time:
  assumes "post_appointments e s body = (Booked i m, s1)"
  shows "\<exists>a. appointments s1 = appointments s @ [a] \<and> appt_id a = i \<and>
             body ''time'' = Some (time a) \<and> time a \<noteq> []"
proof -
  note D = post_appointments_BookedD [OF assms]
  then have "truthy (body ''time'')"
    by (simp add: all_required_def required_fields_def)
  then have "body ''time'' = Some (the (body ''time'')) \<and> the (body ''time'') \<noteq> []"
    by (cases "body ''time''") (simp_all add: truthy_def)
  with D show ?thesis
    by (simp add: booked_state_def insert_values_def)
qed

theorem booked_time_is_request_time_witness:
  "post_appointments e0 after_cancel bob_body = (Booked 2 False, after_bob) \<and>
   (\<exists>a. appointments after_bob = appointments after_cancel @ [a] \<and> appt_id a = 2 \<and>
        bob_body ''time'' = Some (time a) \<and> time a \<noteq> [])"
  using booked_time_is_request_time [OF book_bob] book_bob by simp

text \<open>
  The claim as the specification has it fails: a request whose time is the word
  \<open>soon\<close> is booked, and the store then holds a row whose time is no slot of the grid.
\<close>

theorem booking_stores_any_time:
  "post_appointments e0 init_state soon_body = (Booked 1 False, after_soon) \<and>
   map time (appointments after_soon) = [''soon''] \<and>
   ''soon'' \<notin> set time_grid"
proof -
  have "post_appointments e0 init_state soon_body = (Booked 1 False, after_soon)"
    by code_simp
  moreover have "map time (appointments after_soon) = [''soon'']"
    by (simp add: after_soon_def)
  moreover have "''soon'' \<notin> set time_grid"
    by (simp add: time_grid_value)
  ultimately show ?thesis
    by simp
qed

section \<open>Booking exclusivity\<close>

text \<open>
  Booking, deletion and cancellation keep the table free of double bookings; setting a
  cancelled appointment back to another status does not.
\<close>

lemma slot_exclusive_booked_state:
  assumes "slot_exclusive s"
    and "select_existing s (the (body ''date'')) (the (body ''time'')) = []"
  shows "slot_exclusive (booked_state e s body)"
proof -
  have "(the (body ''date''), the (body ''time''))
          \<notin> set (map (\<lambda>a. (date a, time a)) (filter not_cancelled (appointments s)))"
    using assms(2) by (auto simp: select_existing_empty_iff not_cancelled_def)
  with assms(1) show ?thesis
    by (simp add: slot_exclusive_def booked_state_def insert_values_def not_cancelled_def)
qed

lemma post_appointments_exclusive:
  assumes "slot_exclusive s"
  shows "slot_exclusive (snd (post_appointments e s body))"
proof -
  consider
    (booked) "post_appointments e s body
        = (Booked (appointments_id_seq s + 1) (mail_up e), booked_state e s body)"
      "select_existing s (the (body ''date'')) (the (body ''time'')) = []"
  | (same) "appointments (snd (post_appointments e s body)) = appointments s"
    using post_appointments_rows [of e s body] by blast
  then show ?thesis
  proof cases
    case booked
    with assms show ?thesis
      by (simp add: slot_exclusive_booked_state)
  next
    case same
    with assms show ?thesis
      by (simp add: slot_exclusive_def)
  qed
qed

lemma distinct_slots_filter:
  assumes "distinct (map (\<lambda>a. (date a, time a)) (filter not_cancelled xs))"
  shows "distinct (map (\<lambda>a. (date a, time a)) (filter (\<lambda>x. P x \<and> not_cancelled x) xs))"
proof -
  have "filter (\<lambda>x. P x \<and> not_cancelled x) xs = filter P (filter not_cancelled xs)"
    by (induction xs) auto
  then show ?thesis
    using assms by (simp only: distinct_map_filter)
qed

lemma filter_after_cancel:
  "filter not_cancelled (map (\<lambda>a. if appt_id a = i then a\<lparr>status := ''cancelled''\<rparr> else a) xs)
     = filter not_cancelled (filter (\<lambda>a. appt_id a \<noteq> i) xs)"
  by (induction xs) (auto simp: not_cancelled_def)

lemma delete_appointment_exclusive:
  assumes "slot_exclusive s"
  shows "slot_exclusive (snd (delete_appointment isAdmin s parsed_id))"
  using assms
  by (auto simp: delete_appointment_def delete_row_def slot_exclusive_def
      intro: distinct_slots_filter)

lemma cancel_exclusive:
  assumes "slot_exclusive s"
  shows "slot_exclusive (update_status s ''cancelled'' i)"
  using assms
  by (simp add: slot_exclusive_def update_status_def filter_after_cancel distinct_slots_filter)

lemma patch_cancel_exclusive:
  assumes "slot_exclusive s" and "body ''status'' = Some ''cancelled''"
  shows "slot_exclusive (snd (patch_appointment isAdmin s parsed_id body))"
  using assms by (simp add: patch_appointment_def cancel_exclusive)

text \<open>
  Claim C1. In every state that bookings, status updates and deletions reach, at most
  one appointment that is not cancelled exists at any date and time.

  The booking route keeps this (\<open>post_appointments_exclusive\<close>) by looking for a
  conflict before it inserts; the status route writes any status without looking. Four
  requests reach a double booking: book 8 January 09:00, cancel it, book the same slot
  for someone else, set the first appointment back to confirmed.
\<close>

theorem reactivation_double_books:
  "post_appointments e0 init_state ann_body = (Booked 1 False, after_ann) \<and>
   patch_appointment True after_ann (Some 1) [''status'' \<mapsto> ''cancelled'']
     = (Success ''Appointment updated'', after_cancel) \<and>
   post_appointments e0 after_cancel bob_body = (Booked 2 False, after_bob) \<and>
   patch_appointment True after_bob (Some 1) [''status'' \<mapsto> ''confirmed'']
     = (Success ''Appointment updated'', double_booked) \<and>
   slot_exclusive after_bob \<and>
   \<not> slot_exclusive double_booked"
proof -
  have "slot_exclusive after_bob"
    by code_simp
  moreover have "\<not> slot_exclusive double_booked"
    by code_simp
  ultimately show ?thesis
    using book_ann cancel_ann book_bob confirm_ann by simp
qed

lemma double_booked_reachable: "reachable double_booked"
proof -
  have "reachable (snd (post_appointments e0 init_state ann_body))"
    by (intro reachable_post reachable_init)
  then have "reachable after_ann"
    by (simp add: book_ann)
  then have "reachable (snd (patch_appointment True after_ann (Some 1)
      [''status'' \<mapsto> ''cancelled'']))"
    by (rule reachable_patch)
  then have "reachable after_cancel"
    by (simp add: cancel_ann)
  then have "reachable (snd (post_appointments e0 after_cancel bob_body))"
    by (rule reachable_post)
  then have "reachable after_bob"
    by (simp add: book_bob)
  then have "reachable (snd (patch_appointment True after_bob (Some 1)
      [''status'' \<mapsto> ''confirmed'']))"
    by (rule reachable_patch)
  then show ?thesis
    by (simp add: confirm_ann)
qed

section \<open>Status update and deletion\<close>

lemma update_status_absent:
  assumes "i \<notin> appt_id ` set (appointments s)"
  shows "update_status s st i = s"
proof -
  have "map (\<lambda>a. if appt_id a = i then a\<lparr>status := st\<rparr> else a) (appointments s)
          = appointments s"
    using assms by (intro map_idI) auto
  then show ?thesis
    by (simp add: update_status_def)
qed

lemma delete_row_absent:
  assumes "i \<notin> appt_id ` set (appointments s)"
  shows "delete_row s i = s"
proof -
  have "filter (\<lambda>a. appt_id a \<noteq> i) (appointments s) = appointments s"
    using assms by (auto simp: filter_id_conv)
  then show ?thesis
    by (simp add: delete_row_def)
qed

text \<open>
  Claim C10, as amended. For an authenticated admin and a valid status: when
  \<^verbatim>\<open>parseInt\<close> reads the id of the request as an integer that the 32-bit key column
  can hold and no appointment has that id, PATCH and DELETE answer with success and leave
  the state as it was; when the id is not such an integer (so that no appointment has it
  either), the statement fails, both routes answer 500 and the state is as it was. No
  response of the routes is a not-found error.
\<close>

theorem admin_write_unknown_id:
  assumes "includes_str validStatuses (body ''status'')"
  shows "(int4 (Some i) \<and> i \<notin> appt_id ` set (appointments s) \<longrightarrow>
            patch_appointment True s (Some i) body = (Success ''Appointment updated'', s) \<and>
            delete_appointment True s (Some i) = (Success ''Appointment deleted'', s)) \<and>
         (\<not> int4 parsed_id \<longrightarrow>
            patch_appointment True s parsed_id body
              = (Json_error 500 ''Failed to update appointment'', s) \<and>
            delete_appointment True s parsed_id
              = (Json_error 500 ''Failed to delete appointment'', s))"
  using assms
  by (simp add: patch_appointment_def delete_appointment_def update_status_absent
      delete_row_absent)

theorem admin_write_unknown_id_witness:
  "int4 (Some 7) \<and> 7 \<notin> appt_id ` set (appointments after_bob) \<and>
   patch_appointment True after_bob (Some 7) [''status'' \<mapsto> ''completed'']
     = (Success ''Appointment updated'', after_bob) \<and>
   delete_appointment True after_bob (Some 7) = (Success ''Appointment deleted'', after_bob) \<and>
   \<not> int4 None \<and>
   patch_appointment True after_bob None [''status'' \<mapsto> ''completed'']
     = (Json_error 500 ''Failed to update appointment'', after_bob) \<and>
   delete_appointment True after_bob None
     = (Json_error 500 ''Failed to delete appointment'', after_bob)"
proof -
  have a: "int4 (Some 7)"
    by (simp add: int4_def int4_max_def)
  have b: "7 \<notin> appt_id ` set (appointments after_bob)"
    by (simp add: after_bob_def ann_row_def bob_row_def)
  have c: "includes_str validStatuses ([''status'' \<mapsto> ''completed''] ''status'')"
    by (simp add: includes_str_def validStatuses_def)
  have d: "\<not> int4 None"
    by (simp add: int4_def)
  show ?thesis
    using admin_write_unknown_id
      [of "[''status'' \<mapsto> ''completed'']" 7 after_bob None] a b c d
    by simp
qed

text \<open>
  The claim as the specification has it fails: no appointment has the id 2147483648, one
  past the greatest key, nor an id that is not a number, and for both the two routes
  answer 500, not success.
\<close>

theorem admin_write_outside_key_range:
  "2147483648 \<notin> appt_id ` set (appointments after_bob) \<and>
   patch_appointment True after_bob (Some 2147483648) [''status'' \<mapsto> ''completed'']
     = (Json_error 500 ''Failed to update appointment'', after_bob) \<and>
   delete_appointment True after_bob (Some 2147483648)
     = (Json_error 500 ''Failed to delete appointment'', after_bob) \<and>
   patch_appointment True after_bob None [''status'' \<mapsto> ''completed'']
     = (Json_error 500 ''Failed to update appointment'', after_bob) \<and>
   delete_appointment True after_bob None
     = (Json_error 500 ''Failed to delete appointment'', after_bob)"
  by code_simp

section \<open>The patient roster\<close>

lemma patients_add_to_groups:
  "map patient (add_to_groups a gs) =
     (if patient_of a \<in> set (map patient gs) then map patient gs
      else map patient gs @ [patient_of a])"
  by (induction gs) auto

lemma add_to_groups_other:
  assumes "g' \<in> set (add_to_groups a gs)" and "patient g' \<noteq> patient_of a"
  shows "g' \<in> set gs"
  using assms by (induction gs) (auto split: if_splits)

lemma add_to_groups_same:
  assumes "distinct (map patient gs)" and "g' \<in> set (add_to_groups a gs)"
    and "patient g' = patient_of a"
  shows "(patient_of a \<notin> set (map patient gs) \<and> total_appointments g' = 1 \<and>
            last_visit g' = date a) \<or>
         (\<exists>g \<in> set gs. patient g = patient_of a \<and>
            total_appointments g' = total_appointments g + 1 \<and>
            last_visit g' = max (last_visit g) (date a))"
  using assms
proof (induction gs)
  case Nil
  then show ?case by simp
next
  case (Cons g gs)
  show ?case
  proof (cases "patient g = patient_of a")
    case True
    with Cons.prems show ?thesis
      by (auto simp: image_iff)
  next
    case False
    with Cons.prems have "g' \<in> set (add_to_groups a gs)"
      by auto
    with Cons.IH Cons.prems False show ?thesis
      by auto
  qed
qed

text \<open>One more row: every group still reports its own rows.\<close>

lemma summarises_step:
  assumes d: "distinct (map patient gs)"
    and k: "set (map patient gs) = patient_of ` set rows"
    and s: "\<forall>g \<in> set gs. summarises rows g"
    and g': "g' \<in> set (add_to_groups a gs)"
  shows "summarises (rows @ [a]) g'"
proof (cases "patient g' = patient_of a")
  case False
  then have "g' \<in> set gs"
    using g' add_to_groups_other by blast
  with s have "summarises rows g'"
    by blast
  with False show ?thesis
    by (simp add: summarises_def rows_of_def)
next
  case True
  from add_to_groups_same [OF d g' True]
  consider
    (new) "patient_of a \<notin> set (map patient gs)" "total_appointments g' = 1"
      "last_visit g' = date a"
  | (old) g where "g \<in> set gs" "patient g = patient_of a"
      "total_appointments g' = total_appointments g + 1"
      "last_visit g' = max (last_visit g) (date a)"
    by blast
  then show ?thesis
  proof cases
    case new
    then have "patient_of a \<notin> patient_of ` set rows"
      using k by simp
    then have "\<forall>x \<in> set rows. patient_of x \<noteq> patient_of a"
      by (metis imageI)
    then have "rows_of rows (patient_of a) = []"
      by (simp add: rows_of_def)
    then have "rows_of (rows @ [a]) (patient g') = [a]"
      using True by (simp add: rows_of_def)
    with new show ?thesis
      by (simp add: summarises_def)
  next
    case old
    then have sg: "summarises rows g"
      using s by blast
    have "patient_of a \<in> patient_of ` set rows"
      using old k by force
    then have ne: "set (map date (rows_of rows (patient_of a))) \<noteq> {}"
      by (auto simp: rows_of_def filter_empty_conv)
    have split: "rows_of (rows @ [a]) (patient g') = rows_of rows (patient_of a) @ [a]"
      using True by (simp add: rows_of_def)
    have "Max (set (map date (rows_of rows (patient_of a) @ [a])))
            = max (date a) (Max (set (map date (rows_of rows (patient_of a)))))"
      using ne by (simp add: Max_insert del: set_map)
    with sg old split show ?thesis
      by (simp add: summarises_def max.commute)
  qed
qed

lemma group_by_patient_snoc:
  "group_by_patient (rows @ [a]) = add_to_groups a (group_by_patient rows)"
  by (simp add: group_by_patient_def)

lemma group_by_patient_correct:
  "distinct (map patient (group_by_patient rows)) \<and>
   set (map patient (group_by_patient rows)) = patient_of ` set rows \<and>
   (\<forall>g \<in> set (group_by_patient rows). summarises rows g)"
proof (induction rows rule: rev_induct)
  case Nil
  then show ?case
    by (simp add: group_by_patient_def)
next
  case (snoc a rows)
  let ?gs = "group_by_patient rows"
  have 1: "distinct (map patient (add_to_groups a ?gs))"
    using snoc by (simp add: patients_add_to_groups)
  have 2: "set (map patient (add_to_groups a ?gs)) = patient_of ` set (rows @ [a])"
    using snoc by (auto simp: patients_add_to_groups)
  have 3: "\<forall>g \<in> set (add_to_groups a ?gs). summarises (rows @ [a]) g"
    using snoc summarises_step by blast
  from 1 2 3 show ?case
    by (simp only: group_by_patient_snoc)
qed

lemma order_by_last_visit_desc_props:
  "set (order_by_last_visit_desc gs) = set gs \<and>
   distinct (map patient (order_by_last_visit_desc gs)) = distinct (map patient gs) \<and>
   sorted_wrt (\<lambda>g h. last_visit h \<le> last_visit g) (order_by_last_visit_desc gs)"
proof -
  have "sorted (map last_visit (sort_key last_visit gs))"
    by simp
  then have "sorted_wrt (\<lambda>g h. last_visit g \<le> last_visit h) (sort_key last_visit gs)"
    by (simp add: sorted_wrt_map)
  then have "sorted_wrt (\<lambda>g h. last_visit h \<le> last_visit g) (rev (sort_key last_visit gs))"
    by (simp add: sorted_wrt_rev)
  then show ?thesis
    by (simp add: order_by_last_visit_desc_def distinct_map)
qed

lemma family_patients:
  "get_patients True exact_ops family_state None = Patients family_roster"
  by code_simp

text \<open>
  Claim C6, as amended. The roster has exactly one row for each distinct combination of
  email, first name, last name and phone among the rows the query reads (all rows, or
  those the search keeps); the row carries the number of appointments of that
  combination and the greatest of their dates; and the rows are ordered by that date,
  descending.
\<close>

theorem patients_grouped_by_identity:
  assumes "get_patients isAdmin ops s search = Patients R"
  shows "distinct (map patient R) \<and>
         set (map patient R) = patient_of ` set (select_for_patients ops s search) \<and>
         (\<forall>g \<in> set R. summarises (select_for_patients ops s search) g) \<and>
         sorted_wrt (\<lambda>g h. last_visit h \<le> last_visit g) R"
proof -
  let ?rows = "select_for_patients ops s search"
  from assms have R: "R = order_by_last_visit_desc (group_by_patient ?rows)"
    by (simp add: get_patients_def split: if_splits)
  show ?thesis
    using group_by_patient_correct [of ?rows]
      order_by_last_visit_desc_props [of "group_by_patient ?rows"]
    by (simp add: R)
qed

theorem patients_grouped_by_identity_witness:
  "get_patients True exact_ops family_state None = Patients family_roster \<and>
   distinct (map patient family_roster) \<and>
   set (map patient family_roster) = patient_of ` set (appointments family_state) \<and>
   list_all (summarises (appointments family_state)) family_roster \<and>
   sorted_wrt (\<lambda>g h. last_visit h \<le> last_visit g) family_roster"
proof -
  have rows: "select_for_patients exact_ops family_state None = appointments family_state"
    by (simp add: select_for_patients_def truthy_def)
  show ?thesis
    using patients_grouped_by_identity [OF family_patients] family_patients
    by (simp add: rows list_all_iff)
qed

text \<open>
  The claim as the specification has it fails: two appointments under one email address
  and two first names give two rows with that address, each counting one visit.
\<close>

theorem two_rows_for_one_email:
  "map email (appointments family_state) = [''ann@example.org'', ''ann@example.org''] \<and>
   get_patients True exact_ops family_state None = Patients family_roster \<and>
   map (\<lambda>g. fst (patient g)) family_roster = [''ann@example.org'', ''ann@example.org''] \<and>
   map total_appointments family_roster = [1, 1]"
proof -
  have "map email (appointments family_state) = [''ann@example.org'', ''ann@example.org'']"
    by (simp add: family_state_def kim_row_def ann_row_def)
  moreover
  have "map (\<lambda>g. fst (patient g)) family_roster = [''ann@example.org'', ''ann@example.org'']"
    by (simp add: family_roster_def)
  moreover have "map total_appointments family_roster = [1, 1]"
    by (simp add: family_roster_def)
  ultimately show ?thesis
    using family_patients by simp
qed

end
